theory Spec2Isabelle
  imports Main
begin

section \<open>Python values and text\<close>

text \<open>
  The values that travel through \<open>app.py\<close> as option values, as fields of the request
  document and as fields of the run object: \<open>None\<close>, booleans, integers, strings and
  lists of them.
\<close>

datatype pyval = PyNone | PyBool bool | PyInt int | PyStr string | PyList "pyval list"

text \<open>A Python \<open>dict\<close> with string keys, in the order its keys were written.\<close>

type_synonym pydict = "(string \<times> pyval) list"

text \<open>\<open>str(n)\<close> of a Python integer, as the f-strings of \<open>send_to_webhook\<close> print it.\<close>

fun digits :: "nat \<Rightarrow> string" where
  "digits n = (if n < 10 then [''0123456789'' ! n] else digits (n div 10) @ [''0123456789'' ! (n mod 10)])"

declare digits.simps [simp del]

definition str_int :: "int \<Rightarrow> string" where
  "str_int i = (if i < 0 then CHR ''-'' # digits (nat (- i)) else digits (nat i))"

section \<open>The webhook and its observable effects\<close>

text \<open>
  A record of the result set is passed through unmodified and never inspected, so its type
  is a parameter \<open>'r\<close>. A payload is the \<open>dict\<close> handed to \<open>requests.post\<close> as
  \<open>json=\<close>; its values are strings, integers, one record, or the record list.
\<close>

datatype 'r field = FStr string | FInt int | FRecord 'r | FRecords "'r list"

type_synonym 'r payload = "(string \<times> 'r field) list"

text \<open>
  What \<open>send_to_webhook\<close> does to the outside world, in order:
  \<open>requests.post(url, json=payload, timeout=t)\<close> (\<open>t\<close> in seconds) and
  \<open>time.sleep\<close> (in milliseconds: \<open>time.sleep(0.1)\<close> is \<open>Sleep 100\<close>).
\<close>

datatype 'r event = Post string "'r payload" nat | Sleep nat

text \<open>The part of \<open>requests.Response\<close> that \<open>raise_for_status\<close> reads.\<close>

record response =
  status_code :: int
  reason :: string
  resp_url :: string

text \<open>
  \<open>requests.post\<close> returns a response, or raises an exception of the
  \<open>requests.exceptions.RequestException\<close> hierarchy (connection error, timeout,
  invalid URL, ...), the class that both \<open>except\<close> clauses of \<open>send_to_webhook\<close>
  catch (\<open>Raises\<close>), or raises an exception outside that hierarchy (\<open>Escapes\<close>), which
  neither clause catches: for a host name with an empty label, as in
  \<open>http://hooks..example/in\<close>, urllib3's \<open>LocationParseError\<close> passes through the
  requests library unchanged. Both carry \<open>str(e)\<close>.
\<close>

datatype post_result = Response response | Raises string | Escapes string

text \<open>
  The environment: the clock and the remote endpoint. Both may depend on everything that
  happened before, so they read the events so far (for \<open>respond\<close>, the \<open>Post\<close> just
  issued is the last one). \<open>now\<close> is \<open>datetime.now().isoformat()\<close>.
\<close>

record 'r env =
  now :: "'r event list \<Rightarrow> string"
  respond :: "'r event list \<Rightarrow> post_result"

text \<open>
  \<open>Response.raise_for_status()\<close> of the requests library: it raises \<open>HTTPError\<close>
  (a \<open>RequestException\<close>) when the status is a client error (400 to 499) or a server error
  (500 to 599), and returns otherwise. \<open>Some m\<close> is the raised error's \<open>str(e)\<close>.
\<close>

definition raise_for_status :: "response \<Rightarrow> string option" where
  "raise_for_status r =
     (if 400 \<le> status_code r \<and> status_code r < 500
      then Some (str_int (status_code r) @ '' Client Error: '' @ reason r @ '' for url: '' @ resp_url r)
      else if 500 \<le> status_code r \<and> status_code r < 600
      then Some (str_int (status_code r) @ '' Server Error: '' @ reason r @ '' for url: '' @ resp_url r)
      else None)"

text \<open>
  The two statements \<open>response = requests.post(...)\<close>; \<open>response.raise_for_status()\<close>,
  after the \<open>Post\<close> event was appended to the history \<open>h\<close>: \<open>Accepted\<close> when both
  return, \<open>Refused m\<close> when one of them raises a \<open>RequestException\<close> with
  \<open>str(e) = m\<close>, \<open>Escaped m\<close> when \<open>requests.post\<close> raises any other exception.
\<close>

datatype attempt = Accepted | Refused string | Escaped string

definition post_checked :: "'r env \<Rightarrow> 'r event list \<Rightarrow> attempt" where
  "post_checked e h =
     (case respond e h of
        Response r \<Rightarrow> (case raise_for_status r of None \<Rightarrow> Accepted | Some m \<Rightarrow> Refused m)
      | Raises m \<Rightarrow> Refused m
      | Escapes m \<Rightarrow> Escaped m)"

section \<open>send_to_webhook\<close>

text \<open>\<open>enumerate(data, start)\<close>.\<close>

fun py_enumerate :: "int \<Rightarrow> 'r list \<Rightarrow> (int \<times> 'r) list" where
  "py_enumerate start [] = []"
| "py_enumerate start (x # xs) = (start, x) # py_enumerate (start + 1) xs"

text \<open>The payload of one record (lines 79 to 84) and of the whole list (lines 99 to 103).\<close>

definition individual_payload :: "string \<Rightarrow> int \<Rightarrow> 'r list \<Rightarrow> 'r \<Rightarrow> 'r payload" where
  "individual_payload ts index data record =
     [(''timestamp'', FStr ts), (''record_number'', FInt index),
      (''total_records'', FInt (int (length data))), (''data'', FRecord record)]"

definition bulk_payload :: "string \<Rightarrow> 'r list \<Rightarrow> 'r payload" where
  "bulk_payload ts data =
     [(''timestamp'', FStr ts), (''total_results'', FInt (int (length data))), (''data'', FRecords data)]"

text \<open>
  The body of the \<open>for\<close> loop of the individual mode (lines 78 to 91), for one
  enumerated record. The state is \<open>(success_count, failed_count, events so far)\<close>. The
  pause \<open>time.sleep(0.1)\<close> stands inside the \<open>try\<close> after \<open>raise_for_status\<close>,
  so it is reached only when the POST was accepted; the \<open>except\<close> branch counts the
  failure and continues. An exception that is no \<open>RequestException\<close> is not caught: it
  leaves the body with the counters as they were (\<open>Some\<close>, with \<open>str(e)\<close>).
\<close>

fun send_one :: "'r env \<Rightarrow> string \<Rightarrow> 'r list \<Rightarrow> int \<times> 'r \<Rightarrow> int \<times> int \<times> 'r event list
    \<Rightarrow> string option \<times> int \<times> int \<times> 'r event list" where
  "send_one e webhook_url data (index, record) (success_count, failed_count, h) =
     (let payload = individual_payload (now e h) index data record;
          h1 = h @ [Post webhook_url payload 30]
      in case post_checked e h1 of
           Accepted \<Rightarrow> (None, success_count + 1, failed_count, h1 @ [Sleep 100])
         | Refused err \<Rightarrow> (None, success_count, failed_count + 1, h1)
         | Escaped exn \<Rightarrow> (Some exn, success_count, failed_count, h1))"

text \<open>
  The loop itself (line 77): the body, once per enumerated record, in order; an exception
  that leaves the body leaves the loop.
\<close>

fun send_each :: "'r env \<Rightarrow> string \<Rightarrow> 'r list \<Rightarrow> (int \<times> 'r) list \<Rightarrow> int \<times> int \<times> 'r event list
    \<Rightarrow> string option \<times> int \<times> int \<times> 'r event list" where
  "send_each e webhook_url data [] st = (None, st)"
| "send_each e webhook_url data (x # rest) st =
     (case send_one e webhook_url data x st of
        (None, st1) \<Rightarrow> send_each e webhook_url data rest st1
      | (Some exn, st1) \<Rightarrow> (Some exn, st1))"

text \<open>The outcome of the individual mode (lines 93 to 96).\<close>

definition summary :: "int \<Rightarrow> int \<Rightarrow> bool \<times> string" where
  "summary success_count failed_count =
     (if failed_count = 0
      then (True, ''Successfully sent all '' @ str_int success_count @ '' records individually to webhook'')
      else (True, ''Sent '' @ str_int success_count @ '' records successfully, '' @
                  str_int failed_count @ '' failed''))"

text \<open>
  \<open>send_to_webhook(data, webhook_url, send_individually)\<close>: what the call gives back
  and the events it caused. \<open>Inr (flag, message)\<close> is the returned pair; \<open>Inl m\<close> is an
  exception that neither \<open>except\<close> clause (lines 89 and 108) catches and that reaches
  the caller, with \<open>str(e) = m\<close>.
\<close>

definition send_to_webhook :: "'r env \<Rightarrow> 'r list \<Rightarrow> string \<Rightarrow> bool
    \<Rightarrow> (string + bool \<times> string) \<times> 'r event list" where
  "send_to_webhook e data webhook_url send_individually =
     (if send_individually then
        (case send_each e webhook_url data (py_enumerate 1 data) (0, 0, []) of
           (None, success_count, failed_count, h) \<Rightarrow> (Inr (summary success_count failed_count), h)
         | (Some exn, success_count, failed_count, h) \<Rightarrow> (Inl exn, h))
      else
        (let payload = bulk_payload (now e []) data;
             h1 = [Post webhook_url payload 30]
         in case post_checked e h1 of
              Accepted \<Rightarrow>
                (Inr (True, ''Successfully sent '' @ str_int (int (length data)) @ '' records in bulk to webhook''), h1)
            | Refused err \<Rightarrow> (Inr (False, ''Webhook error: '' @ err), h1)
            | Escaped exn \<Rightarrow> (Inl exn, h1)))"

text \<open>
  Reading the events back. \<open>posts\<close> keeps the POSTs; \<open>verdicts\<close> says, for each POST
  in order, whether it was accepted (neither \<open>requests.post\<close> nor
  \<open>raise_for_status\<close> raised), given the events up to it; \<open>sent_data\<close> is the
  \<open>data\<close> field of each POST's payload.
\<close>

fun posts :: "'r event list \<Rightarrow> 'r event list" where
  "posts [] = []"
| "posts (Post u p t # es) = Post u p t # posts es"
| "posts (Sleep d # es) = posts es"

fun verdicts_from :: "'r env \<Rightarrow> 'r event list \<Rightarrow> 'r event list \<Rightarrow> bool list" where
  "verdicts_from e h [] = []"
| "verdicts_from e h (Post u p t # es) =
     (post_checked e (h @ [Post u p t]) = Accepted) # verdicts_from e (h @ [Post u p t]) es"
| "verdicts_from e h (Sleep d # es) = verdicts_from e (h @ [Sleep d]) es"

definition verdicts :: "'r env \<Rightarrow> 'r event list \<Rightarrow> bool list" where
  "verdicts e h = verdicts_from e [] h"

fun sent_data :: "'r event list \<Rightarrow> 'r field option list" where
  "sent_data [] = []"
| "sent_data (Post u p t # es) = map_of p ''data'' # sent_data es"
| "sent_data (Sleep d # es) = sent_data es"

text \<open>The record list carried by a bulk payload: its \<open>data\<close> field, when it is a list.\<close>

definition records_of :: "'r payload \<Rightarrow> 'r list option" where
  "records_of p = (case map_of p ''data'' of Some (FRecords rs) \<Rightarrow> Some rs | _ \<Rightarrow> None)"

section \<open>scrape_google_maps\<close>

text \<open>
  The Apify client, as \<open>scrape_google_maps\<close> uses it.
  \<open>actor_call name run_input\<close> is \<open>client.actor(name).call(run_input=run_input)\<close>:
  it raises (\<open>Inl\<close>, with \<open>str(e)\<close>) or returns the run object, a \<open>dict\<close> or \<open>None\<close>.
  \<open>iterate_items id\<close> is \<open>client.dataset(id).iterate_items()\<close>: the items it yields,
  then either exhaustion (\<open>None\<close>) or an exception (\<open>Some\<close>, with \<open>str(e)\<close>).
  An item is passed through unmodified, so its type is the parameter \<open>'r\<close>.
\<close>

record 'r apify =
  actor_call :: "string \<Rightarrow> pydict \<Rightarrow> string + pydict option"
  iterate_items :: "pyval \<Rightarrow> 'r list \<times> string option"

text \<open>The requests \<open>scrape_google_maps\<close> sends to the remote service, in order.\<close>

datatype call = ActorCall string pydict | DatasetRead pyval

text \<open>\<open>d.get(key, default)\<close> on a \<open>dict\<close>.\<close>

definition dict_get :: "(string \<rightharpoonup> pyval) \<Rightarrow> string \<Rightarrow> pyval \<Rightarrow> pyval" where
  "dict_get d key dflt = (case d key of Some v \<Rightarrow> v | None \<Rightarrow> dflt)"

text \<open>The request document (lines 116 to 140), for an option set that is a \<open>dict\<close>.\<close>

definition run_input :: "string \<Rightarrow> string \<Rightarrow> int \<Rightarrow> (string \<rightharpoonup> pyval) \<Rightarrow> pydict" where
  "run_input search_query location max_results additional_options =
     [(''searchStringsArray'', PyList [PyStr search_query]),
      (''locationQuery'', PyStr location),
      (''maxCrawledPlacesPerSearch'', PyInt max_results),
      (''language'', PyStr ''en''),
      (''searchMatching'', PyStr ''all''),
      (''placeMinimumStars'', PyStr ''''),
      (''website'', PyStr ''allPlaces''),
      (''skipClosedPlaces'', dict_get additional_options ''skipClosedPlaces'' (PyBool False)),
      (''scrapePlaceDetailPage'', dict_get additional_options ''scrapePlaceDetailPage'' (PyBool False)),
      (''scrapeTableReservationProvider'', PyBool False),
      (''includeWebResults'', dict_get additional_options ''includeWebResults'' (PyBool False)),
      (''scrapeDirectories'', PyBool False),
      (''maxQuestions'', PyInt 0),
      (''scrapeContacts'', dict_get additional_options ''scrapeContacts'' (PyBool False)),
      (''maximumLeadsEnrichmentRecords'', dict_get additional_options ''maximumLeadsEnrichmentRecords'' (PyInt 0)),
      (''maxReviews'', dict_get additional_options ''maxReviews'' (PyInt 0)),
      (''reviewsSort'', PyStr ''newest''),
      (''reviewsFilterString'', PyStr ''''),
      (''reviewsOrigin'', PyStr ''all''),
      (''scrapeReviewsPersonalData'', PyBool True),
      (''maxImages'', dict_get additional_options ''maxImages'' (PyInt 0)),
      (''scrapeImageAuthors'', PyBool False),
      (''allPlacesNoSearchAction'', PyStr '''')]"

text \<open>
  The loop of lines 144 to 146: every yielded item is appended to \<open>results\<close>; an
  exception of the iterator leaves the loop with the error and without the list.
\<close>

fun collect :: "'r list \<Rightarrow> string option \<Rightarrow> 'r list \<Rightarrow> string + 'r list" where
  "collect [] None results = Inr results"
| "collect [] (Some err) results = Inl err"
| "collect (item # rest) stop results = collect rest stop (results @ [item])"

text \<open>What \<open>scrape_google_maps\<close> returns in second place: the results or \<open>str(e)\<close>.\<close>

datatype 'r body = Items "'r list" | Cause string

text \<open>
  The texts of the three exceptions Python itself raises in \<open>scrape_google_maps\<close>:
  \<open>None.get\<close> (an \<open>AttributeError\<close>), \<open>None[...]\<close> (a \<open>TypeError\<close>) and a missing
  key (a \<open>KeyError\<close>, whose text is the key in quotes).
\<close>

definition quoted :: "string \<Rightarrow> string" where
  "quoted s = CHR 0x27 # s @ [CHR 0x27]"

definition no_attribute_get :: string where
  "no_attribute_get = quoted ''NoneType'' @ '' object has no attribute '' @ quoted ''get''"

definition not_subscriptable :: string where
  "not_subscriptable = quoted ''NoneType'' @ '' object is not subscriptable''"

text \<open>
  \<open>scrape_google_maps(search_query, location, max_results, additional_options)\<close>: the
  returned triple and the requests it sent. \<open>additional_options\<close> is \<open>None\<close> (the
  parameter's default) or a \<open>dict\<close>. Every exception is caught by \<open>except Exception\<close>
  (line 150) and returned as \<open>(False, str(e), None)\<close>: \<open>None.get\<close> raises while the
  request document is built, \<open>run[...]\<close> raises when the run object is \<open>None\<close> or has
  no \<open>defaultDatasetId\<close>. The function compares \<open>max_results\<close> with nothing.
\<close>

definition scrape_google_maps :: "'r apify \<Rightarrow> string \<Rightarrow> string \<Rightarrow> int \<Rightarrow> (string \<rightharpoonup> pyval) option
    \<Rightarrow> (bool \<times> 'r body \<times> pydict option) \<times> call list" where
  "scrape_google_maps client search_query location max_results additional_options =
     (case additional_options of
        None \<Rightarrow> ((False, Cause no_attribute_get, None), [])
      | Some opts \<Rightarrow>
          (let doc = run_input search_query location max_results opts;
               c1 = ActorCall ''compass/crawler-google-places'' doc
           in case actor_call client ''compass/crawler-google-places'' doc of
                Inl err \<Rightarrow> ((False, Cause err, None), [c1])
              | Inr None \<Rightarrow> ((False, Cause not_subscriptable, None), [c1])
              | Inr (Some run) \<Rightarrow>
                  (case map_of run ''defaultDatasetId'' of
                     None \<Rightarrow> ((False, Cause (quoted ''defaultDatasetId''), None), [c1])
                   | Some dataset_id \<Rightarrow>
                       (case iterate_items client dataset_id of
                          (yielded, stop) \<Rightarrow>
                            (case collect yielded stop [] of
                               Inl err \<Rightarrow> ((False, Cause err, None), [c1, DatasetRead dataset_id])
                             | Inr results \<Rightarrow> ((True, Items results, Some run), [c1, DatasetRead dataset_id]))))))"

section \<open>Loop invariants\<close>

text \<open>
  \<open>no_escape\<close>: the webhook never makes \<open>requests.post\<close> raise an exception outside
  the \<open>RequestException\<close> hierarchy.
  \<open>tallied\<close>: the two counters are the numbers of accepted and of not accepted POSTs so far.
  \<open>counted\<close>: the two counters are non-negative and sum to the number of POSTs so far,
  less the one POST whose exception left the loop, if any.
  \<open>paced\<close>: the events so far are the POSTs in order, each followed by the pause of 100
  milliseconds exactly when it was accepted.
\<close>

definition no_escape :: "'r env \<Rightarrow> bool" where
  "no_escape e = (\<forall>h m. respond e h \<noteq> Escapes m)"

definition tallied :: "'r env \<Rightarrow> int \<times> int \<times> 'r event list \<Rightarrow> bool" where
  "tallied e st = (case st of (sc, fc, h) \<Rightarrow>
     sc = int (count_list (verdicts e h) True) \<and> fc = int (count_list (verdicts e h) False))"

definition counted :: "string option \<times> int \<times> int \<times> 'r event list \<Rightarrow> bool" where
  "counted res = (case res of (r, sc, fc, h) \<Rightarrow>
     0 \<le> sc \<and> 0 \<le> fc \<and> sc + fc + (if r = None then 0 else 1) = int (length (posts h)))"

definition paced :: "'r env \<Rightarrow> 'r event list \<Rightarrow> bool" where
  "paced e h = (h = concat (map2 (\<lambda>p ok. if ok then [p, Sleep 100] else [p]) (posts h) (verdicts e h)))"

section \<open>Example environments\<close>

text \<open>
  Concrete webhooks, with business names as records: one that answers 200 to every POST,
  one that answers 500, one that answers 503 to the second POST only, one that answers 304,
  one that cannot be reached, and one whose host name has an empty label
  (\<open>http://hooks..example/in\<close>), for which \<open>requests.post\<close> raises urllib3's
  \<open>LocationParseError\<close>.
\<close>

definition clock :: "string event list \<Rightarrow> string" where
  "clock h = ''2026-11-04T09:00:00''"

definition reply :: "int \<Rightarrow> string \<Rightarrow> post_result" where
  "reply code why = Response \<lparr>status_code = code, reason = why, resp_url = ''https://hooks.example/in''\<rparr>"

definition accepting :: "string env" where
  "accepting = \<lparr>now = clock, respond = (\<lambda>h. reply 200 ''OK'')\<rparr>"

definition refusing :: "string env" where
  "refusing = \<lparr>now = clock, respond = (\<lambda>h. reply 500 ''Internal Server Error'')\<rparr>"

definition second_fails :: "string env" where
  "second_fails = \<lparr>now = clock,
     respond = (\<lambda>h. if length (posts h) = 2 then reply 503 ''Service Unavailable'' else reply 200 ''OK'')\<rparr>"

definition not_modified :: "string env" where
  "not_modified = \<lparr>now = clock, respond = (\<lambda>h. reply 304 ''Not Modified'')\<rparr>"

definition unreachable :: "string env" where
  "unreachable = \<lparr>now = clock, respond = (\<lambda>h. Raises ''Connection refused'')\<rparr>"

definition parse_error :: string where
  "parse_error = ''Failed to parse: '' @ quoted ''hooks..example'' @ '', label empty or too long''"

definition malformed_host :: "string env" where
  "malformed_host = \<lparr>now = clock, respond = (\<lambda>h. Escapes parse_error)\<rparr>"

text \<open>
  Concrete remote services: a run that finished with an empty dataset, a dataset whose
  read breaks after the first item, a token the service rejects, and a run that the
  service reports as failed, with one item in its dataset. Two option sets: the
  empty \<open>dict\<close> and one that sets \<open>maxReviews\<close> only.
\<close>

definition finished_run :: pydict where
  "finished_run = [(''id'', PyStr ''run1''), (''status'', PyStr ''SUCCEEDED''),
                   (''defaultDatasetId'', PyStr ''ds1'')]"

definition failed_run :: pydict where
  "failed_run = [(''id'', PyStr ''run2''), (''status'', PyStr ''FAILED''),
                 (''defaultDatasetId'', PyStr ''ds2'')]"

definition no_options :: "string \<rightharpoonup> pyval" where
  "no_options = Map.empty"

definition only_reviews :: "string \<rightharpoonup> pyval" where
  "only_reviews = [''maxReviews'' \<mapsto> PyInt 25]"

definition empty_dataset :: "string apify" where
  "empty_dataset = \<lparr>actor_call = (\<lambda>name doc. Inr (Some finished_run)),
                     iterate_items = (\<lambda>dataset_id. ([], None))\<rparr>"

definition broken_read :: "string apify" where
  "broken_read = \<lparr>actor_call = (\<lambda>name doc. Inr (Some finished_run)),
                   iterate_items = (\<lambda>dataset_id. ([''Cafe Nero''], Some ''Connection reset by peer''))\<rparr>"

definition bad_token :: "string apify" where
  "bad_token = \<lparr>actor_call = (\<lambda>name doc. Inl ''User was not found or authentication token is not valid''),
                 iterate_items = (\<lambda>dataset_id. ([], None))\<rparr>"

definition failed_actor :: "string apify" where
  "failed_actor = \<lparr>actor_call = (\<lambda>name doc. Inr (Some failed_run)),
                    iterate_items = (\<lambda>dataset_id. ([''Cafe Nero''], None))\<rparr>"

lemmas env_defs = clock_def reply_def accepting_def refusing_def second_fails_def not_modified_def
  unreachable_def malformed_host_def parse_error_def quoted_def

lemmas run_defs = send_to_webhook_def post_checked_def raise_for_status_def individual_payload_def
  bulk_payload_def summary_def str_int_def digits.simps Let_def

lemmas api_defs = finished_run_def failed_run_def no_options_def empty_dataset_def broken_read_def
  bad_token_def failed_actor_def

section \<open>Facts about the loop and its events\<close>

lemma py_enumerate_length: "length (py_enumerate s xs) = length xs"
  by (induction xs arbitrary: s) auto

lemma py_enumerate_nth: "i < length xs \<Longrightarrow> py_enumerate s xs ! i = (s + int i, xs ! i)"
proof (induction xs arbitrary: s i)
  case Nil
  then show ?case by simp
next
  case (Cons x xs)
  then show ?case by (cases i) auto
qed

lemma py_enumerate_take: "take k (py_enumerate s xs) = py_enumerate s (take k xs)"
proof (induction xs arbitrary: s k)
  case Nil
  then show ?case by simp
next
  case (Cons x xs)
  then show ?case by (cases k) auto
qed

lemma py_enumerate_snd: "map snd (py_enumerate s xs) = xs"
  by (induction xs arbitrary: s) auto

lemma posts_append: "posts (a @ b) = posts a @ posts b"
  by (induction a rule: posts.induct) auto

lemma sent_data_append: "sent_data (a @ b) = sent_data a @ sent_data b"
  by (induction a rule: sent_data.induct) auto

lemma verdicts_from_append:
  "verdicts_from e h (a @ b) = verdicts_from e h a @ verdicts_from e (h @ a) b"
  by (induction e h a rule: verdicts_from.induct) auto

lemma verdicts_from_length: "length (verdicts_from e h a) = length (posts a)"
  by (induction e h a rule: verdicts_from.induct) auto

lemma verdicts_append: "verdicts e (h @ a) = verdicts e h @ verdicts_from e h a"
  by (simp add: verdicts_def verdicts_from_append)

lemma verdicts_length: "length (verdicts e h) = length (posts h)"
  by (simp add: verdicts_def verdicts_from_length)

lemma no_escape_post_checked: "no_escape e \<Longrightarrow> post_checked e h \<noteq> Escaped m"
  by (auto simp: no_escape_def post_checked_def split: post_result.splits option.splits)

text \<open>One iteration.\<close>

lemma send_one_cases:
  obtains (accepted) i r sc fc h where "x = (i, r)" "st = (sc, fc, h)"
      "post_checked e (h @ [Post u (individual_payload (now e h) i d r) 30]) = Accepted"
      "send_one e u d x st =
         (None, sc + 1, fc, h @ [Post u (individual_payload (now e h) i d r) 30, Sleep 100])"
  | (refused) i r sc fc h err where "x = (i, r)" "st = (sc, fc, h)"
      "post_checked e (h @ [Post u (individual_payload (now e h) i d r) 30]) = Refused err"
      "send_one e u d x st =
         (None, sc, fc + 1, h @ [Post u (individual_payload (now e h) i d r) 30])"
  | (escaped) i r sc fc h exn where "x = (i, r)" "st = (sc, fc, h)"
      "post_checked e (h @ [Post u (individual_payload (now e h) i d r) 30]) = Escaped exn"
      "send_one e u d x st =
         (Some exn, sc, fc, h @ [Post u (individual_payload (now e h) i d r) 30])"
proof -
  obtain i r where x: "x = (i, r)" by (cases x)
  obtain sc fc h where st: "st = (sc, fc, h)" by (cases st)
  show thesis
  proof (cases "post_checked e (h @ [Post u (individual_payload (now e h) i d r) 30])")
    case Accepted
    with x st show ?thesis by (intro accepted [of i r sc fc h]) (simp_all add: Let_def)
  next
    case (Refused err)
    with x st show ?thesis by (intro refused [of i r sc fc h err]) (simp_all add: Let_def)
  next
    case (Escaped exn)
    with x st show ?thesis by (intro escaped [of i r sc fc h exn]) (simp_all add: Let_def)
  qed
qed

lemma send_each_Cons_done:
  "send_one e u d x st = (None, st1) \<Longrightarrow> send_each e u d (x # rest) st = send_each e u d rest st1"
  by simp

lemma send_each_Cons_stop:
  "send_one e u d x st = (Some exn, st1) \<Longrightarrow> send_each e u d (x # rest) st = (Some exn, st1)"
  by simp

lemma send_each_append:
  "send_each e u d (xs @ ys) st =
     (case send_each e u d xs st of
        (None, st1) \<Rightarrow> send_each e u d ys st1
      | (Some exn, st1) \<Rightarrow> (Some exn, st1))"
  by (induction xs arbitrary: st) (auto split: prod.splits option.splits)

text \<open>The events keep their pace, whatever happens.\<close>

lemma paced_accepted:
  assumes "paced e h" and "post_checked e (h @ [Post u p t]) = Accepted"
  shows "paced e (h @ [Post u p t, Sleep 100])"
proof -
  have "concat (map2 (\<lambda>p ok. if ok then [p, Sleep 100] else [p])
          (posts (h @ [Post u p t, Sleep 100])) (verdicts e (h @ [Post u p t, Sleep 100]))) =
        concat (map2 (\<lambda>p ok. if ok then [p, Sleep 100] else [p]) (posts h) (verdicts e h)) @
          [Post u p t, Sleep 100]"
    using assms(2) by (simp add: posts_append verdicts_append verdicts_length)
  also have "\<dots> = h @ [Post u p t, Sleep 100]"
    using assms(1) by (simp add: paced_def)
  finally show ?thesis by (simp add: paced_def)
qed

lemma paced_not_accepted:
  assumes "paced e h" and "post_checked e (h @ [Post u p t]) \<noteq> Accepted"
  shows "paced e (h @ [Post u p t])"
proof -
  have "concat (map2 (\<lambda>p ok. if ok then [p, Sleep 100] else [p])
          (posts (h @ [Post u p t])) (verdicts e (h @ [Post u p t]))) =
        concat (map2 (\<lambda>p ok. if ok then [p, Sleep 100] else [p]) (posts h) (verdicts e h)) @
          [Post u p t]"
    using assms(2) by (simp add: posts_append verdicts_append verdicts_length)
  also have "\<dots> = h @ [Post u p t]"
    using assms(1) by (simp add: paced_def)
  finally show ?thesis by (simp add: paced_def)
qed

lemma send_one_paced:
  "paced e (snd (snd st)) \<Longrightarrow> paced e (snd (snd (snd (send_one e u d x st))))"
  by (rule send_one_cases [where x = x and st = st and e = e and u = u and d = d]) (simp_all add: paced_accepted paced_not_accepted)

lemma send_each_paced:
  "paced e (snd (snd st)) \<Longrightarrow> paced e (snd (snd (snd (send_each e u d items st))))"
proof (induction items arbitrary: st)
  case Nil
  then show ?case by simp
next
  case (Cons x items)
  obtain r st1 where one: "send_one e u d x st = (r, st1)" by (cases "send_one e u d x st")
  from send_one_paced [OF Cons.prems, of u d x] one have p1: "paced e (snd (snd st1))" by simp
  show ?case
  proof (cases r)
    case None
    with one Cons.IH [OF p1] show ?thesis by simp
  next
    case (Some exn)
    with one p1 show ?thesis by simp
  qed
qed

text \<open>The counters and the number of POSTs.\<close>

lemma send_one_counted:
  "counted (None, st) \<Longrightarrow> counted (send_one e u d x st)"
  by (rule send_one_cases [where x = x and st = st and e = e and u = u and d = d]) (simp_all add: counted_def posts_append)

lemma send_one_posts_length:
  "length (posts (snd (snd (snd (send_one e u d x st))))) = Suc (length (posts (snd (snd st))))"
  by (rule send_one_cases [where x = x and st = st and e = e and u = u and d = d]) (simp_all add: posts_append)

lemma send_each_counted:
  "counted (None, st) \<Longrightarrow> counted (send_each e u d items st)"
proof (induction items arbitrary: st)
  case Nil
  then show ?case by simp
next
  case (Cons x items)
  obtain r st1 where one: "send_one e u d x st = (r, st1)" by (cases "send_one e u d x st")
  from send_one_counted [OF Cons.prems, of e u d x] one have c1: "counted (r, st1)" by simp
  show ?case
  proof (cases r)
    case None
    with one c1 Cons.IH [of st1] show ?thesis by simp
  next
    case (Some exn)
    with one c1 show ?thesis by simp
  qed
qed

lemma send_each_posts_length:
  "length (posts (snd (snd (snd (send_each e u d items st))))) \<le> length (posts (snd (snd st))) + length items
   \<and> (fst (send_each e u d items st) = None \<longrightarrow>
        length (posts (snd (snd (snd (send_each e u d items st))))) = length (posts (snd (snd st))) + length items)"
proof (induction items arbitrary: st)
  case Nil
  then show ?case by simp
next
  case (Cons x items)
  obtain r st1 where one: "send_one e u d x st = (r, st1)" by (cases "send_one e u d x st")
  from send_one_posts_length [of e u d x st] one
  have l1: "length (posts (snd (snd st1))) = Suc (length (posts (snd (snd st))))" by simp
  show ?case
  proof (cases r)
    case None
    with one l1 Cons.IH [of st1] show ?thesis by simp
  next
    case (Some exn)
    with one l1 show ?thesis by simp
  qed
qed

text \<open>A loop that no exception leaves.\<close>

lemma send_one_None_cases:
  assumes "fst (send_one e u d x st) = None"
  obtains (accepted) i r sc fc h where "x = (i, r)" "st = (sc, fc, h)"
      "post_checked e (h @ [Post u (individual_payload (now e h) i d r) 30]) = Accepted"
      "send_one e u d x st =
         (None, sc + 1, fc, h @ [Post u (individual_payload (now e h) i d r) 30, Sleep 100])"
  | (refused) i r sc fc h err where "x = (i, r)" "st = (sc, fc, h)"
      "post_checked e (h @ [Post u (individual_payload (now e h) i d r) 30]) = Refused err"
      "send_one e u d x st =
         (None, sc, fc + 1, h @ [Post u (individual_payload (now e h) i d r) 30])"
proof (rule send_one_cases [where x = x and st = st and e = e and u = u and d = d])
  fix i r sc fc h
  assume "x = (i, r)" "st = (sc, fc, h)"
    "post_checked e (h @ [Post u (individual_payload (now e h) i d r) 30]) = Accepted"
    "send_one e u d x st =
       (None, sc + 1, fc, h @ [Post u (individual_payload (now e h) i d r) 30, Sleep 100])"
  then show thesis by (rule accepted)
next
  fix i r sc fc h err
  assume "x = (i, r)" "st = (sc, fc, h)"
    "post_checked e (h @ [Post u (individual_payload (now e h) i d r) 30]) = Refused err"
    "send_one e u d x st = (None, sc, fc + 1, h @ [Post u (individual_payload (now e h) i d r) 30])"
  then show thesis by (rule refused)
next
  fix i r sc fc h exn
  assume "send_one e u d x st =
    (Some exn, sc, fc, h @ [Post u (individual_payload (now e h) i d r) 30])"
  with assms show thesis by simp
qed

lemma send_each_None_Cons:
  assumes "fst (send_each e u d (x # items) st) = None"
  obtains st1 where "send_one e u d x st = (None, st1)"
    and "send_each e u d (x # items) st = send_each e u d items st1"
    and "fst (send_each e u d items st1) = None"
proof -
  obtain r st1 where one: "send_one e u d x st = (r, st1)" by (cases "send_one e u d x st")
  with assms have "r = None" by (cases r) auto
  with one assms that [of st1] show thesis by simp
qed

lemma send_each_tallied:
  "tallied e st \<Longrightarrow> fst (send_each e u d items st) = None \<Longrightarrow>
     tallied e (snd (send_each e u d items st))"
proof (induction items arbitrary: st)
  case Nil
  then show ?case by simp
next
  case (Cons x items)
  from Cons.prems(2) obtain st1 where one: "send_one e u d x st = (None, st1)"
    and step: "send_each e u d (x # items) st = send_each e u d items st1"
    and rest: "fst (send_each e u d items st1) = None"
    by (rule send_each_None_Cons)
  from one have "fst (send_one e u d x st) = None" by simp
  then have "tallied e st1"
    using Cons.prems(1) one
    by (cases rule: send_one_None_cases) (auto simp: tallied_def verdicts_append)
  from Cons.IH [OF this rest] step show ?case by simp
qed

lemma send_each_sent_data:
  "fst (send_each e u d items st) = None \<Longrightarrow>
     sent_data (snd (snd (snd (send_each e u d items st)))) =
       sent_data (snd (snd st)) @ map (\<lambda>x. Some (FRecord (snd x))) items"
proof (induction items arbitrary: st)
  case Nil
  then show ?case by simp
next
  case (Cons x items)
  from Cons.prems obtain st1 where one: "send_one e u d x st = (None, st1)"
    and step: "send_each e u d (x # items) st = send_each e u d items st1"
    and rest: "fst (send_each e u d items st1) = None"
    by (rule send_each_None_Cons)
  from one have "fst (send_one e u d x st) = None" by simp
  then have "sent_data (snd (snd st1)) = sent_data (snd (snd st)) @ [Some (FRecord (snd x))]"
    using one
    by (cases rule: send_one_None_cases) (auto simp: sent_data_append individual_payload_def)
  with Cons.IH [OF rest] step show ?case by simp
qed

lemma send_each_posts:
  "fst (send_each e u d items st) = None \<Longrightarrow>
     \<exists>ps. posts (snd (snd (snd (send_each e u d items st)))) = posts (snd (snd st)) @ ps \<and>
       list_all2 (\<lambda>ev x. \<exists>ts. ev = Post u (individual_payload ts (fst x) d (snd x)) 30) ps items"
proof (induction items arbitrary: st)
  case Nil
  then show ?case by simp
next
  case (Cons x items)
  from Cons.prems obtain st1 where one: "send_one e u d x st = (None, st1)"
    and step: "send_each e u d (x # items) st = send_each e u d items st1"
    and rest: "fst (send_each e u d items st1) = None"
    by (rule send_each_None_Cons)
  from one have "fst (send_one e u d x st) = None" by simp
  then have "\<exists>ts. posts (snd (snd st1)) =
      posts (snd (snd st)) @ [Post u (individual_payload ts (fst x) d (snd x)) 30]"
    using one by (cases rule: send_one_None_cases) (auto simp: posts_append)
  then obtain ts where p1: "posts (snd (snd st1)) =
      posts (snd (snd st)) @ [Post u (individual_payload ts (fst x) d (snd x)) 30]" ..
  from Cons.IH [OF rest] obtain ps where
    ps: "posts (snd (snd (snd (send_each e u d items st1)))) = posts (snd (snd st1)) @ ps"
      "list_all2 (\<lambda>ev x. \<exists>ts. ev = Post u (individual_payload ts (fst x) d (snd x)) 30) ps items"
    by auto
  show ?case
  proof (intro exI conjI)
    show "posts (snd (snd (snd (send_each e u d (x # items) st)))) =
        posts (snd (snd st)) @ (Post u (individual_payload ts (fst x) d (snd x)) 30 # ps)"
      using step p1 ps(1) by simp
    show "list_all2 (\<lambda>ev x. \<exists>ts. ev = Post u (individual_payload ts (fst x) d (snd x)) 30)
        (Post u (individual_payload ts (fst x) d (snd x)) 30 # ps) (x # items)"
      using ps(2) by auto
  qed
qed

lemma send_one_no_escape: "no_escape e \<Longrightarrow> fst (send_one e u d x st) = None"
  by (rule send_one_cases [where x = x and st = st and e = e and u = u and d = d])
     (auto dest: no_escape_post_checked)

lemma send_each_no_escape: "no_escape e \<Longrightarrow> fst (send_each e u d items st) = None"
proof (induction items arbitrary: st)
  case Nil
  then show ?case by simp
next
  case (Cons x items)
  obtain r st1 where one: "send_one e u d x st = (r, st1)" by (cases "send_one e u d x st")
  with send_one_no_escape [OF Cons.prems, of u d x st] have "r = None" by simp
  with one Cons.IH [OF Cons.prems, of st1] show ?case by simp
qed

text \<open>The individual mode as a whole.\<close>

lemma individual_events:
  "snd (send_to_webhook e data url True) =
     snd (snd (snd (send_each e url data (py_enumerate 1 data) (0, 0, []))))"
  by (simp add: send_to_webhook_def split: prod.splits option.splits)

lemma individual_result:
  "fst (send_to_webhook e data url True) =
     (case send_each e url data (py_enumerate 1 data) (0, 0, []) of
        (None, sc, fc, h) \<Rightarrow> Inr (summary sc fc)
      | (Some exn, sc, fc, h) \<Rightarrow> Inl exn)"
  by (simp add: send_to_webhook_def split: prod.splits option.splits)

lemma individual_returned:
  "fst (send_to_webhook e data url True) = Inr out \<Longrightarrow>
     fst (send_each e url data (py_enumerate 1 data) (0, 0, [])) = None"
  by (auto simp: individual_result split: prod.splits option.splits)

lemma summary_flag: "fst (summary sc fc) = True"
  by (simp add: summary_def)

text \<open>
  What individual delivery does when no exception leaves the loop: it returns, it has sent
  one POST per record, in order and each with its number, and its message counts the
  accepted and the refused POSTs.
\<close>

lemma individual_returns: "no_escape e \<Longrightarrow> \<exists>out. fst (send_to_webhook e data url True) = Inr out"
  using send_each_no_escape [of e url data "py_enumerate 1 data" "(0, 0, [])"]
  by (auto simp: individual_result split: prod.splits option.splits)

lemma individual_posts_if_returned:
  assumes "fst (send_to_webhook e data url True) = Inr out"
  shows "length (posts (snd (send_to_webhook e data url True))) = length data"
    and "i < length data \<Longrightarrow> \<exists>ts.
      posts (snd (send_to_webhook e data url True)) ! i =
        Post url [(''timestamp'', FStr ts),
                  (''record_number'', FInt (int i + 1)),
                  (''total_records'', FInt (int (length data))),
                  (''data'', FRecord (data ! i))] 30"
    and "fst out = True"
proof -
  note fin = individual_returned [OF assms]
  from send_each_posts [OF fin]
  have all2: "list_all2 (\<lambda>ev x. \<exists>ts. ev = Post url (individual_payload ts (fst x) data (snd x)) 30)
     (posts (snd (send_to_webhook e data url True))) (py_enumerate 1 data)"
    by (auto simp: individual_events)
  show len: "length (posts (snd (send_to_webhook e data url True))) = length data"
    using list_all2_lengthD [OF all2] by (simp add: py_enumerate_length)
  show "fst out = True"
    using assms fin by (auto simp: individual_result summary_flag split: prod.splits option.splits)
  assume i: "i < length data"
  then have "i < length (posts (snd (send_to_webhook e data url True)))"
    using len by simp
  from list_all2_nthD [OF all2 this] i
  show "\<exists>ts. posts (snd (send_to_webhook e data url True)) ! i =
        Post url [(''timestamp'', FStr ts),
                  (''record_number'', FInt (int i + 1)),
                  (''total_records'', FInt (int (length data))),
                  (''data'', FRecord (data ! i))] 30"
    by (simp add: py_enumerate_nth individual_payload_def add.commute)
qed

lemma individual_outcome_if_returned:
  assumes "fst (send_to_webhook e data url True) = Inr out"
  shows "length (verdicts e (snd (send_to_webhook e data url True))) = length data"
    and "sent_data (snd (send_to_webhook e data url True)) = map (\<lambda>r. Some (FRecord r)) data"
    and "out = summary (int (count_list (verdicts e (snd (send_to_webhook e data url True))) True))
                       (int (count_list (verdicts e (snd (send_to_webhook e data url True))) False))"
proof -
  note fin = individual_returned [OF assms]
  obtain sc fc h where run: "send_each e url data (py_enumerate 1 data) (0, 0, []) = (None, sc, fc, h)"
    using fin by (cases "send_each e url data (py_enumerate 1 data) (0, 0, [])") auto
  have ev: "snd (send_to_webhook e data url True) = h"
    by (simp add: individual_events run)
  have out: "out = summary sc fc"
    using assms by (simp add: individual_result run)
  have "tallied e (0, 0, [])"
    by (simp add: tallied_def verdicts_def)
  from send_each_tallied [OF this fin] have "tallied e (sc, fc, h)"
    by (simp add: run)
  then show "out = summary (int (count_list (verdicts e (snd (send_to_webhook e data url True))) True))
                       (int (count_list (verdicts e (snd (send_to_webhook e data url True))) False))"
    by (simp add: tallied_def out ev)
  show "length (verdicts e (snd (send_to_webhook e data url True))) = length data"
    using individual_posts_if_returned(1) [OF assms] by (simp add: verdicts_length)
  have "sent_data h = map (\<lambda>x. Some (FRecord (snd x))) (py_enumerate 1 data)"
    using send_each_sent_data [OF fin] by (simp add: run)
  also have "\<dots> = map (\<lambda>r. Some (FRecord r)) (map snd (py_enumerate 1 data))"
    by simp
  also have "map snd (py_enumerate 1 data) = data"
    by (rule py_enumerate_snd)
  finally show "sent_data (snd (send_to_webhook e data url True)) = map (\<lambda>r. Some (FRecord r)) data"
    by (simp add: ev)
qed

lemma collect_result:
  "collect yielded stop results = (case stop of None \<Rightarrow> Inr (results @ yielded) | Some err \<Rightarrow> Inl err)"
  by (induction yielded stop results rule: collect.induct) (auto split: option.splits)

lemma counted_start: "counted (None, 0, 0, [])"
  by (simp add: counted_def)

section \<open>Bulk delivery\<close>

text \<open>
  C1. For every record list of size N, also the empty one, bulk delivery causes exactly one
  event, a POST to the given URL with a timeout of 30 seconds, whose payload has
  \<open>total_results\<close> equal to N and \<open>data\<close> equal to the full list in its order. When that
  POST is accepted, the outcome is \<open>True\<close> with the message
  "Successfully sent N records in bulk to webhook".
\<close>

theorem bulk_one_post:
  "snd (send_to_webhook e data url False) =
     [Post url [(''timestamp'', FStr (now e [])),
                (''total_results'', FInt (int (length data))),
                (''data'', FRecords data)] 30] \<and>
   (post_checked e (snd (send_to_webhook e data url False)) = Accepted \<longrightarrow>
      fst (send_to_webhook e data url False) =
        Inr (True, ''Successfully sent '' @ str_int (int (length data)) @ '' records in bulk to webhook''))"
  by (simp add: send_to_webhook_def bulk_payload_def Let_def split: attempt.splits)

text \<open>
  The empty list against a webhook that answers 200: one POST with an empty \<open>data\<close> list
  is sent, and the message counts 0 records.
\<close>

theorem bulk_one_post_witness:
  "snd (send_to_webhook accepting [] ''https://hooks.example/in'' False) =
     [Post ''https://hooks.example/in''
        [(''timestamp'', FStr ''2026-11-04T09:00:00''), (''total_results'', FInt 0), (''data'', FRecords [])] 30] \<and>
   fst (send_to_webhook accepting [] ''https://hooks.example/in'' False) =
     Inr (True, ''Successfully sent 0 records in bulk to webhook'')"
  using bulk_one_post [of accepting "[]" "''https://hooks.example/in''"]
  by (simp add: env_defs post_checked_def raise_for_status_def str_int_def digits.simps)

text \<open>
  A final response with status 304 is not a 2xx response, yet \<open>raise_for_status\<close> lets it
  pass and bulk delivery reports success.
\<close>

theorem bulk_2xx_counterexample:
  "respond not_modified
     [Post ''https://hooks.example/in'' (bulk_payload (now not_modified []) [''Cafe Nero'']) 30] =
     Response \<lparr>status_code = 304, reason = ''Not Modified'', resp_url = ''https://hooks.example/in''\<rparr> \<and>
   fst (send_to_webhook not_modified [''Cafe Nero''] ''https://hooks.example/in'' False) =
     Inr (True, ''Successfully sent 1 records in bulk to webhook'')"
  by (simp add: env_defs run_defs)

text \<open>
  C4, as the code has it. In bulk mode a \<open>RequestException\<close> raised by
  \<open>requests.post\<close>, or a response whose status is from 400 to 599, makes
  \<open>send_to_webhook\<close> return \<open>False\<close> with the message "Webhook error: " followed by the
  text of the exception; the failure is a returned value (\<open>Inr\<close>), no exception reaches
  the caller. A response with any other status, 1xx and 3xx included, is a success.
\<close>

theorem bulk_failure_returned:
  "(respond e [Post url (bulk_payload (now e []) data) 30] = Raises m \<longrightarrow>
      fst (send_to_webhook e data url False) = Inr (False, ''Webhook error: '' @ m)) \<and>
   (respond e [Post url (bulk_payload (now e []) data) 30] = Response r \<and>
      400 \<le> status_code r \<and> status_code r < 600 \<longrightarrow>
      (\<exists>cause. raise_for_status r = Some cause \<and>
         fst (send_to_webhook e data url False) = Inr (False, ''Webhook error: '' @ cause))) \<and>
   (respond e [Post url (bulk_payload (now e []) data) 30] = Response r \<and>
      \<not> (400 \<le> status_code r \<and> status_code r < 600) \<longrightarrow>
      fst (send_to_webhook e data url False) =
        Inr (True, ''Successfully sent '' @ str_int (int (length data)) @ '' records in bulk to webhook''))"
  by (auto simp: send_to_webhook_def post_checked_def raise_for_status_def Let_def)

text \<open>
  An unreachable webhook, a webhook that answers 500 and one that answers 200.
\<close>

theorem bulk_failure_returned_witness:
  "fst (send_to_webhook unreachable [''Cafe Nero''] ''https://hooks.example/in'' False) =
     Inr (False, ''Webhook error: Connection refused'') \<and>
   fst (send_to_webhook refusing [''Cafe Nero''] ''https://hooks.example/in'' False) =
     Inr (False, ''Webhook error: 500 Server Error: Internal Server Error for url: https://hooks.example/in'') \<and>
   fst (send_to_webhook accepting [''Cafe Nero''] ''https://hooks.example/in'' False) =
     Inr (True, ''Successfully sent 1 records in bulk to webhook'')"
  using bulk_failure_returned [of unreachable "''https://hooks.example/in''" "[''Cafe Nero'']" "''Connection refused''"]
    bulk_failure_returned [of refusing "''https://hooks.example/in''" "[''Cafe Nero'']" _
      "\<lparr>status_code = 500, reason = ''Internal Server Error'', resp_url = ''https://hooks.example/in''\<rparr>"]
    bulk_failure_returned [of accepting "''https://hooks.example/in''" "[''Cafe Nero'']" _
      "\<lparr>status_code = 200, reason = ''OK'', resp_url = ''https://hooks.example/in''\<rparr>"]
  by (simp add: env_defs raise_for_status_def str_int_def digits.simps)

text \<open>
  C9. The payload that bulk delivery posts carries the record list unchanged: reading its
  \<open>data\<close> field back gives the original list, record for record and in the same order, and
  its \<open>total_results\<close> is the length of that list.
\<close>

theorem bulk_payload_round_trip:
  "(case snd (send_to_webhook e data url False) of
      [Post u p t] \<Rightarrow> records_of p = Some data \<and> map_of p ''total_results'' = Some (FInt (int (length data)))
    | _ \<Rightarrow> False) \<and>
   records_of (bulk_payload ts data) = Some data"
  by (simp add: send_to_webhook_def bulk_payload_def records_of_def Let_def split: attempt.splits)

text \<open>
  Two records.
\<close>

theorem bulk_payload_round_trip_witness:
  "records_of (bulk_payload ''2026-11-04T09:00:00'' [''Cafe Nero'', ''Bean There'']) =
     Some [''Cafe Nero'', ''Bean There'']"
  using bulk_payload_round_trip [where e = accepting and data = "[''Cafe Nero'', ''Bean There'']"
      and url = "''https://hooks.example/in''" and ts = "''2026-11-04T09:00:00''"]
  by simp

section \<open>Individual delivery\<close>

text \<open>
  C2 says that individual delivery of N records issues exactly N POSTs and reports a
  non-error outcome. The code does so whenever it returns (\<open>individual_posts_if_returned\<close>),
  and it returns when no POST raises outside the \<open>RequestException\<close> hierarchy
  (\<open>individual_returns\<close>). With the webhook URL \<open>http://hooks..example/in\<close> and two
  records it does not: the first POST raises \<open>LocationParseError\<close>, which the
  \<open>except\<close> clauses of lines 89 and 108 do not catch, so one POST is issued instead of
  two and the caller gets the exception instead of an outcome.
\<close>

theorem individual_stops_at_escaping_post:
  "send_to_webhook malformed_host [''Cafe Nero'', ''Bean There''] ''http://hooks..example/in'' True =
     (Inl parse_error,
      [Post ''http://hooks..example/in''
         [(''timestamp'', FStr ''2026-11-04T09:00:00''), (''record_number'', FInt 1),
          (''total_records'', FInt 2), (''data'', FRecord ''Cafe Nero'')] 30])"
  by (simp add: malformed_host_def clock_def send_to_webhook_def post_checked_def
      individual_payload_def Let_def)

text \<open>
  C3 says that a failed POST is only counted and never ends the loop, so that every record
  is attempted and the outcome is always \<open>True\<close>. The code does so whenever it returns
  (\<open>individual_outcome_if_returned\<close>). With the webhook URL
  \<open>http://hooks..example/in\<close> and three records, the failure of the first POST is not
  counted and ends the loop: only the first record is attempted and no outcome is
  returned.
\<close>

theorem individual_escape_aborts_loop:
  "fst (send_to_webhook malformed_host [''Cafe Nero'', ''Bean There'', ''Mocha Hut'']
          ''http://hooks..example/in'' True) = Inl parse_error \<and>
   sent_data (snd (send_to_webhook malformed_host [''Cafe Nero'', ''Bean There'', ''Mocha Hut'']
          ''http://hooks..example/in'' True)) = [Some (FRecord ''Cafe Nero'')] \<and>
   verdicts malformed_host (snd (send_to_webhook malformed_host [''Cafe Nero'', ''Bean There'', ''Mocha Hut'']
          ''http://hooks..example/in'' True)) = [False]"
  by (simp add: malformed_host_def clock_def send_to_webhook_def post_checked_def
      individual_payload_def Let_def verdicts_def)

text \<open>
  Two records against a webhook that answers 500: the second POST follows the first with
  no pause between them.
\<close>

theorem pause_after_refused_post_counterexample:
  "snd (send_to_webhook refusing [''Cafe Nero'', ''Bean There''] ''https://hooks.example/in'' True) =
     [Post ''https://hooks.example/in''
        [(''timestamp'', FStr ''2026-11-04T09:00:00''), (''record_number'', FInt 1),
         (''total_records'', FInt 2), (''data'', FRecord ''Cafe Nero'')] 30,
      Post ''https://hooks.example/in''
        [(''timestamp'', FStr ''2026-11-04T09:00:00''), (''record_number'', FInt 2),
         (''total_records'', FInt 2), (''data'', FRecord ''Bean There'')] 30]"
  by (simp add: env_defs run_defs)

text \<open>
  C7, as the code has it. The events of individual delivery are the POSTs in order, each
  followed by one pause of 100 milliseconds when it was accepted (also after the last one)
  and by no pause when it was not.
\<close>

theorem pause_after_accepted_post:
  "snd (send_to_webhook e data url True) =
     concat (map2 (\<lambda>p ok. if ok then [p, Sleep 100] else [p])
       (posts (snd (send_to_webhook e data url True)))
       (verdicts e (snd (send_to_webhook e data url True))))"
proof -
  have "paced e (snd (snd (0::int, 0::int, [] :: 'a event list)))"
    by (simp add: paced_def verdicts_def)
  then have "paced e (snd (snd (snd (send_each e url data (py_enumerate 1 data) (0, 0, [])))))"
    by (rule send_each_paced)
  then show ?thesis
    by (simp add: individual_events paced_def)
qed

text \<open>
  Three records of which the second is refused: a pause follows the first and the third
  POST only.
\<close>

theorem pause_after_accepted_post_witness:
  "snd (send_to_webhook second_fails [''Cafe Nero'', ''Bean There'', ''Mocha Hut''] ''https://hooks.example/in'' True) =
     [Post ''https://hooks.example/in''
        [(''timestamp'', FStr ''2026-11-04T09:00:00''), (''record_number'', FInt 1),
         (''total_records'', FInt 3), (''data'', FRecord ''Cafe Nero'')] 30,
      Sleep 100,
      Post ''https://hooks.example/in''
        [(''timestamp'', FStr ''2026-11-04T09:00:00''), (''record_number'', FInt 2),
         (''total_records'', FInt 3), (''data'', FRecord ''Bean There'')] 30,
      Post ''https://hooks.example/in''
        [(''timestamp'', FStr ''2026-11-04T09:00:00''), (''record_number'', FInt 3),
         (''total_records'', FInt 3), (''data'', FRecord ''Mocha Hut'')] 30,
      Sleep 100]"
  using pause_after_accepted_post [of second_fails "[''Cafe Nero'', ''Bean There'', ''Mocha Hut'']" "''https://hooks.example/in''"]
  by (simp add: env_defs run_defs verdicts_def)

text \<open>
  C10. After each number k of iterations of the loop (by \<open>send_each_append\<close>, the loop
  over the first k enumerated records), the two counters kept by the loop sum to k; when
  an exception has left the loop, they sum to the number of POSTs before the one that
  raised, which is less than k. When the loop finishes, its two counters are non-negative,
  sum to the length of the record list, and are the two counts that the returned message
  prints.
\<close>

theorem counters_sum_to_processed:
  "(\<forall>k\<le>length data.
      case send_each e url data (take k (py_enumerate 1 data)) (0, 0, []) of
        (None, success_count, failed_count, h) \<Rightarrow> success_count + failed_count = int k
      | (Some exn, success_count, failed_count, h) \<Rightarrow>
          success_count + failed_count + 1 = int (length (posts h)) \<and> length (posts h) \<le> k) \<and>
   (case send_each e url data (py_enumerate 1 data) (0, 0, []) of
      (None, success_count, failed_count, h) \<Rightarrow>
        0 \<le> success_count \<and> 0 \<le> failed_count \<and>
        success_count + failed_count = int (length data) \<and>
        fst (send_to_webhook e data url True) =
          Inr (True,
               if failed_count = 0
               then ''Successfully sent all '' @ str_int success_count @ '' records individually to webhook''
               else ''Sent '' @ str_int success_count @ '' records successfully, '' @
                    str_int failed_count @ '' failed'')
    | (Some exn, success_count, failed_count, h) \<Rightarrow>
        fst (send_to_webhook e data url True) = Inl exn)"
proof (intro conjI allI impI)
  fix k assume k: "k \<le> length data"
  obtain r sc fc h where run:
    "send_each e url data (take k (py_enumerate 1 data)) (0, 0, []) = (r, sc, fc, h)"
    by (cases "send_each e url data (take k (py_enumerate 1 data)) (0, 0, [])") auto
  from send_each_counted [OF counted_start, of e url data "take k (py_enumerate 1 data)"]
  have c: "sc + fc + (if r = None then 0 else 1) = int (length (posts h))"
    by (simp add: run counted_def)
  from send_each_posts_length [of e url data "take k (py_enumerate 1 data)" "(0, 0, [])"] k
  have l: "length (posts h) \<le> k" "r = None \<longrightarrow> length (posts h) = k"
    by (simp_all add: run py_enumerate_length)
  show "case send_each e url data (take k (py_enumerate 1 data)) (0, 0, []) of
        (None, success_count, failed_count, h) \<Rightarrow> success_count + failed_count = int k
      | (Some exn, success_count, failed_count, h) \<Rightarrow>
          success_count + failed_count + 1 = int (length (posts h)) \<and> length (posts h) \<le> k"
    using c l by (cases r) (simp_all add: run)
next
  obtain r sc fc h where run:
    "send_each e url data (py_enumerate 1 data) (0, 0, []) = (r, sc, fc, h)"
    by (cases "send_each e url data (py_enumerate 1 data) (0, 0, [])") auto
  from send_each_counted [OF counted_start, of e url data "py_enumerate 1 data"]
  have c: "0 \<le> sc" "0 \<le> fc" "sc + fc + (if r = None then 0 else 1) = int (length (posts h))"
    by (simp_all add: run counted_def)
  from send_each_posts_length [of e url data "py_enumerate 1 data" "(0, 0, [])"]
  have l: "r = None \<longrightarrow> length (posts h) = length data"
    by (simp add: run py_enumerate_length)
  show "case send_each e url data (py_enumerate 1 data) (0, 0, []) of
      (None, success_count, failed_count, h) \<Rightarrow>
        0 \<le> success_count \<and> 0 \<le> failed_count \<and>
        success_count + failed_count = int (length data) \<and>
        fst (send_to_webhook e data url True) =
          Inr (True,
               if failed_count = 0
               then ''Successfully sent all '' @ str_int success_count @ '' records individually to webhook''
               else ''Sent '' @ str_int success_count @ '' records successfully, '' @
                    str_int failed_count @ '' failed'')
    | (Some exn, success_count, failed_count, h) \<Rightarrow>
        fst (send_to_webhook e data url True) = Inl exn"
    using c l by (cases r) (simp_all add: run individual_result summary_def)
qed

text \<open>
  Three records of which the second is refused: one success and one failure after two
  iterations, and the message "Sent 2 records successfully, 1 failed" at the end.
\<close>

theorem counters_sum_to_processed_witness:
  "send_each second_fails ''https://hooks.example/in'' [''Cafe Nero'', ''Bean There'', ''Mocha Hut'']
     (take 2 (py_enumerate 1 [''Cafe Nero'', ''Bean There'', ''Mocha Hut''])) (0, 0, []) =
     (None, 1, 1,
      [Post ''https://hooks.example/in''
        [(''timestamp'', FStr ''2026-11-04T09:00:00''), (''record_number'', FInt 1),
         (''total_records'', FInt 3), (''data'', FRecord ''Cafe Nero'')] 30,
      Sleep 100,
      Post ''https://hooks.example/in''
        [(''timestamp'', FStr ''2026-11-04T09:00:00''), (''record_number'', FInt 2),
         (''total_records'', FInt 3), (''data'', FRecord ''Bean There'')] 30]) \<and>
   (1::int) + 1 = int 2 \<and> (2::nat) \<le> length [''Cafe Nero'', ''Bean There'', ''Mocha Hut''] \<and>
   fst (send_each second_fails ''https://hooks.example/in'' [''Cafe Nero'', ''Bean There'', ''Mocha Hut'']
     (py_enumerate 1 [''Cafe Nero'', ''Bean There'', ''Mocha Hut'']) (0, 0, [])) = None \<and>
   fst (send_to_webhook second_fails [''Cafe Nero'', ''Bean There'', ''Mocha Hut''] ''https://hooks.example/in'' True) =
     Inr (True, ''Sent 2 records successfully, 1 failed'')"
  using counters_sum_to_processed [of "[''Cafe Nero'', ''Bean There'', ''Mocha Hut'']" second_fails "''https://hooks.example/in''"]
  by (simp add: env_defs run_defs)

section \<open>Fetching\<close>

text \<open>
  A call with \<open>max_results = 0\<close>, outside 1 to 500: the actor is called with
  \<open>maxCrawledPlacesPerSearch = 0\<close>, the dataset is read and the call succeeds.
\<close>

theorem max_results_unchecked_counterexample:
  "fst (scrape_google_maps empty_dataset ''cafes'' ''Dubai'' 0 (Some no_options)) =
     (True, Items [], Some finished_run) \<and>
   snd (scrape_google_maps empty_dataset ''cafes'' ''Dubai'' 0 (Some no_options)) =
     [ActorCall ''compass/crawler-google-places'' (run_input ''cafes'' ''Dubai'' 0 no_options),
      DatasetRead (PyStr ''ds1'')] \<and>
   map_of (run_input ''cafes'' ''Dubai'' 0 no_options) ''maxCrawledPlacesPerSearch'' = Some (PyInt 0)"
  by (simp add: scrape_google_maps_def api_defs run_input_def)

text \<open>
  C5, as the code has it. \<open>scrape_google_maps\<close> does not check \<open>max_results\<close>: for every
  integer, inside 1 to 500 or not, and every option set, the call is not rejected before
  the network is used; its first request is the actor call, whose document has
  \<open>maxCrawledPlacesPerSearch\<close> equal to \<open>max_results\<close>.
\<close>

theorem max_results_forwarded:
  "(\<exists>rest. snd (scrape_google_maps client search_query location max_results (Some opts)) =
      ActorCall ''compass/crawler-google-places'' (run_input search_query location max_results opts) # rest) \<and>
   map_of (run_input search_query location max_results opts) ''maxCrawledPlacesPerSearch'' =
     Some (PyInt max_results)"
  by (auto simp: scrape_google_maps_def run_input_def Let_def split: sum.splits option.splits prod.splits)

text \<open>
  \<open>max_results = 501\<close> is forwarded as it is.
\<close>

theorem max_results_forwarded_witness:
  "snd (scrape_google_maps empty_dataset ''cafes'' ''Dubai'' 501 (Some no_options)) =
     [ActorCall ''compass/crawler-google-places'' (run_input ''cafes'' ''Dubai'' 501 no_options),
      DatasetRead (PyStr ''ds1'')] \<and>
   map_of (run_input ''cafes'' ''Dubai'' 501 no_options) ''maxCrawledPlacesPerSearch'' = Some (PyInt 501)"
  using max_results_forwarded [of empty_dataset "''cafes''" "''Dubai''" 501 no_options]
  by (simp add: scrape_google_maps_def api_defs)

text \<open>
  A run that the service returns with status \<open>FAILED\<close> and one item in its dataset:
  the remote execution failed, yet the result is a success with the items read.
\<close>

theorem failed_run_counterexample:
  "map_of failed_run ''status'' = Some (PyStr ''FAILED'') \<and>
   actor_call failed_actor ''compass/crawler-google-places'' (run_input ''cafes'' ''Dubai'' 50 no_options) =
     Inr (Some failed_run) \<and>
   fst (scrape_google_maps failed_actor ''cafes'' ''Dubai'' 50 (Some no_options)) =
     (True, Items [''Cafe Nero''], Some failed_run)"
  by (simp add: scrape_google_maps_def api_defs)

text \<open>
  C6, as the code has it. When the actor call raises, the result is
  \<open>(False, str(e), None)\<close>. When the read of the dataset raises, after any number of items,
  the result is again \<open>(False, str(e), None)\<close> and the items read so far are dropped. When
  the actor call returns a run object that names its dataset, whatever else the run object
  says (its status is never read), and the read ends normally, the result is
  \<open>(True, items, run)\<close> with every item in order, the empty list included. Every result has
  one of these two shapes, told apart by the flag.
\<close>

theorem fetch_all_or_nothing:
  "(actor_call client ''compass/crawler-google-places'' (run_input q loc n opts) = Inl err \<longrightarrow>
      fst (scrape_google_maps client q loc n (Some opts)) = (False, Cause err, None)) \<and>
   (actor_call client ''compass/crawler-google-places'' (run_input q loc n opts) = Inr (Some run) \<and>
      map_of run ''defaultDatasetId'' = Some dataset_id \<and>
      iterate_items client dataset_id = (yielded, Some err) \<longrightarrow>
      fst (scrape_google_maps client q loc n (Some opts)) = (False, Cause err, None)) \<and>
   (actor_call client ''compass/crawler-google-places'' (run_input q loc n opts) = Inr (Some run) \<and>
      map_of run ''defaultDatasetId'' = Some dataset_id \<and>
      iterate_items client dataset_id = (yielded, None) \<longrightarrow>
      fst (scrape_google_maps client q loc n (Some opts)) = (True, Items yielded, Some run)) \<and>
   ((\<exists>items run. fst (scrape_google_maps client q loc n additional_options) = (True, Items items, Some run)) \<or>
    (\<exists>cause. fst (scrape_google_maps client q loc n additional_options) = (False, Cause cause, None)))"
  by (auto simp: scrape_google_maps_def Let_def collect_result split: sum.splits option.splits prod.splits)

text \<open>
  A rejected token, a read that breaks after one item, a run with no items, and a run
  returned as failed.
\<close>

theorem fetch_all_or_nothing_witness:
  "fst (scrape_google_maps bad_token ''cafes'' ''Dubai'' 50 (Some no_options)) =
     (False, Cause ''User was not found or authentication token is not valid'', None) \<and>
   fst (scrape_google_maps broken_read ''cafes'' ''Dubai'' 50 (Some no_options)) =
     (False, Cause ''Connection reset by peer'', None) \<and>
   fst (scrape_google_maps empty_dataset ''cafes'' ''Dubai'' 50 (Some no_options)) =
     (True, Items [], Some finished_run) \<and>
   fst (scrape_google_maps failed_actor ''cafes'' ''Dubai'' 50 (Some no_options)) =
     (True, Items [''Cafe Nero''], Some failed_run)"
  using fetch_all_or_nothing [where client = bad_token and q = "''cafes''" and loc = "''Dubai''"
      and n = 50 and opts = no_options
      and err = "''User was not found or authentication token is not valid''"]
    fetch_all_or_nothing [where client = broken_read and q = "''cafes''" and loc = "''Dubai''"
      and n = 50 and opts = no_options and run = finished_run and dataset_id = "PyStr ''ds1''"
      and yielded = "[''Cafe Nero'']" and err = "''Connection reset by peer''"]
    fetch_all_or_nothing [where client = empty_dataset and q = "''cafes''" and loc = "''Dubai''"
      and n = 50 and opts = no_options and run = finished_run and dataset_id = "PyStr ''ds1''"
      and yielded = "[]"]
    fetch_all_or_nothing [where client = failed_actor and q = "''cafes''" and loc = "''Dubai''"
      and n = 50 and opts = no_options and run = failed_run and dataset_id = "PyStr ''ds2''"
      and yielded = "[''Cafe Nero'']"]
  by (simp add: api_defs)

text \<open>
  C8. For every option set (a \<open>dict\<close>), the document sent to the actor has
  \<open>language = "en"\<close> and \<open>searchMatching = "all"\<close>, and each recognised key that the
  option set lacks has its default: \<open>False\<close> for \<open>skipClosedPlaces\<close>,
  \<open>scrapePlaceDetailPage\<close>, \<open>scrapeContacts\<close> and \<open>includeWebResults\<close>, 0 for
  \<open>maxReviews\<close>, \<open>maxImages\<close> and \<open>maximumLeadsEnrichmentRecords\<close>.
\<close>

theorem request_document_defaults:
  "(\<exists>rest. snd (scrape_google_maps client q loc n (Some opts)) =
      ActorCall ''compass/crawler-google-places'' (run_input q loc n opts) # rest) \<and>
   map_of (run_input q loc n opts) ''language'' = Some (PyStr ''en'') \<and>
   map_of (run_input q loc n opts) ''searchMatching'' = Some (PyStr ''all'') \<and>
   (opts ''skipClosedPlaces'' = None \<longrightarrow>
      map_of (run_input q loc n opts) ''skipClosedPlaces'' = Some (PyBool False)) \<and>
   (opts ''scrapePlaceDetailPage'' = None \<longrightarrow>
      map_of (run_input q loc n opts) ''scrapePlaceDetailPage'' = Some (PyBool False)) \<and>
   (opts ''scrapeContacts'' = None \<longrightarrow>
      map_of (run_input q loc n opts) ''scrapeContacts'' = Some (PyBool False)) \<and>
   (opts ''includeWebResults'' = None \<longrightarrow>
      map_of (run_input q loc n opts) ''includeWebResults'' = Some (PyBool False)) \<and>
   (opts ''maxReviews'' = None \<longrightarrow>
      map_of (run_input q loc n opts) ''maxReviews'' = Some (PyInt 0)) \<and>
   (opts ''maxImages'' = None \<longrightarrow>
      map_of (run_input q loc n opts) ''maxImages'' = Some (PyInt 0)) \<and>
   (opts ''maximumLeadsEnrichmentRecords'' = None \<longrightarrow>
      map_of (run_input q loc n opts) ''maximumLeadsEnrichmentRecords'' = Some (PyInt 0))"
proof -
  have "\<exists>rest. snd (scrape_google_maps client q loc n (Some opts)) =
      ActorCall ''compass/crawler-google-places'' (run_input q loc n opts) # rest"
    by (auto simp: scrape_google_maps_def Let_def split: sum.splits option.splits prod.splits)
  then show ?thesis
    by (simp add: run_input_def dict_get_def)
qed

text \<open>
  An option set with \<open>maxReviews\<close> only, and the empty one.
\<close>

theorem request_document_defaults_witness:
  "map_of (run_input ''cafes'' ''Dubai'' 50 only_reviews) ''language'' = Some (PyStr ''en'') \<and>
   map_of (run_input ''cafes'' ''Dubai'' 50 only_reviews) ''searchMatching'' = Some (PyStr ''all'') \<and>
   only_reviews ''skipClosedPlaces'' = None \<and>
   map_of (run_input ''cafes'' ''Dubai'' 50 only_reviews) ''skipClosedPlaces'' = Some (PyBool False) \<and>
   only_reviews ''scrapePlaceDetailPage'' = None \<and>
   map_of (run_input ''cafes'' ''Dubai'' 50 only_reviews) ''scrapePlaceDetailPage'' = Some (PyBool False) \<and>
   only_reviews ''scrapeContacts'' = None \<and>
   map_of (run_input ''cafes'' ''Dubai'' 50 only_reviews) ''scrapeContacts'' = Some (PyBool False) \<and>
   only_reviews ''includeWebResults'' = None \<and>
   map_of (run_input ''cafes'' ''Dubai'' 50 only_reviews) ''includeWebResults'' = Some (PyBool False) \<and>
   only_reviews ''maxImages'' = None \<and>
   map_of (run_input ''cafes'' ''Dubai'' 50 only_reviews) ''maxImages'' = Some (PyInt 0) \<and>
   only_reviews ''maximumLeadsEnrichmentRecords'' = None \<and>
   map_of (run_input ''cafes'' ''Dubai'' 50 only_reviews) ''maximumLeadsEnrichmentRecords'' = Some (PyInt 0) \<and>
   map_of (run_input ''cafes'' ''Dubai'' 50 only_reviews) ''maxReviews'' = Some (PyInt 25) \<and>
   no_options ''maxReviews'' = None \<and>
   map_of (run_input ''cafes'' ''Dubai'' 50 no_options) ''maxReviews'' = Some (PyInt 0)"
  using request_document_defaults [of empty_dataset "''cafes''" "''Dubai''" 50 only_reviews]
    request_document_defaults [of empty_dataset "''cafes''" "''Dubai''" 50 no_options]
  by (simp add: only_reviews_def no_options_def run_input_def dict_get_def)

end
